theory Spec2Isabelle
  imports Main
begin

section \<open>Python values and exceptions\<close>

text \<open>
  The exceptions the two modules can raise. \<open>IOError\<close> is Python's alias of \<open>OSError\<close>;
  Pillow's \<open>UnidentifiedImageError\<close> and \<open>FileNotFoundError\<close> are subclasses of
  it, so one constructor stands for the family that \<open>except IOError\<close> catches.
\<close>

datatype error = AttributeError string | ValueError | OSError | TclError

text \<open>
  An instance attribute that is assigned outside \<open>__init__\<close> is a field of type
  \<open>'a attr\<close>: \<open>None\<close> until the first assignment. Reading it while it is \<open>None\<close>
  raises \<open>AttributeError\<close>.
\<close>

type_synonym 'a attr = "'a option"

section \<open>text_menu_ui.py\<close>

definition FONTS :: "string list" where
  "FONTS =
     [''Arial'', ''Verdana'', ''Times New Roman'', ''Courier New'', ''Georgia'',
      ''Comic Sans MS'', ''Trebuchet MS'', ''Impact'', ''Lucida Console'', ''Tahoma'']"

text \<open>The palette is a dict; \<open>COLORS_AND_CODE.get(k)\<close> is the map applied to \<open>k\<close>.\<close>

definition COLORS_AND_CODE :: "string \<rightharpoonup> string" where
  "COLORS_AND_CODE =
     [''Red'' \<mapsto> ''#a32424'', ''Blue'' \<mapsto> ''#2424a3'', ''Yellow'' \<mapsto> ''#e8ff00'',
      ''Black'' \<mapsto> ''#000000'', ''White'' \<mapsto> ''#ffffff'']"

text \<open>
  The four input widgets of a \<open>TextMenu\<close> window, each by the string its \<open>get()\<close>
  returns, and whether the window has been destroyed.
\<close>

record widgets =
  text_entry :: string
  color_box :: string
  spinbox :: string
  font_box :: string
  destroyed :: bool

text \<open>
  The callback is a bound method of whoever opened the window: it takes the four values
  and the state \<open>'w\<close> of its owner, and returns the owner's new state and the exception it
  raised, if any. \<open>None\<close> is Python's \<open>callback=None\<close>.
\<close>

type_synonym 'w callback = "string \<Rightarrow> string option \<Rightarrow> string \<Rightarrow> string \<Rightarrow> 'w \<Rightarrow> 'w \<times> error option"

record 'w TextMenu = widgets +
  callback :: "'w callback option"

text \<open>\<open>TextMenu.__init__\<close>: every input starts empty.\<close>

definition TextMenu_init :: "'w callback option \<Rightarrow> 'w TextMenu" where
  "TextMenu_init cb =
     \<lparr>text_entry = '''', color_box = '''', spinbox = '''', font_box = '''',
      destroyed = False, callback = cb\<rparr>"

definition close_window :: "'w TextMenu \<Rightarrow> 'w TextMenu" where
  "close_window d = d\<lparr>destroyed := True\<rparr>"

text \<open>What one call of \<open>apply_changes\<close> leaves behind.\<close>

record 'w applied =
  dialog :: "'w TextMenu"
  world :: 'w
  shown :: "(string \<times> string) list"
  raised :: "error option"

definition missing_values :: "string \<times> string" where
  "missing_values =
     (''Missing Values'', ''Please do not leave blank spaces.'' @ [CHR 0x0A] @ ''Complete all fields.'')"

text \<open>
  \<open>apply_changes\<close>. Reading a widget of a destroyed window raises \<open>TclError\<close>. An
  exception of the callback leaves the method before \<open>close_window\<close>.
\<close>

definition apply_changes :: "'w TextMenu \<Rightarrow> 'w \<Rightarrow> 'w applied" where
  "apply_changes d w =
     (if destroyed d then \<lparr>dialog = d, world = w, shown = [], raised = Some TclError\<rparr>
      else
        let font_size_value = spinbox d;
            color_value = color_box d;
            text_value = text_entry d;
            font_value = font_box d
        in
          if font_size_value \<noteq> '''' \<and> color_value \<noteq> '''' \<and> text_value \<noteq> '''' \<and> font_value \<noteq> ''''
          then
            (case callback d of
               None \<Rightarrow> \<lparr>dialog = close_window d, world = w, shown = [], raised = None\<rparr>
             | Some cb \<Rightarrow>
                 (case cb text_value (COLORS_AND_CODE color_value) font_size_value font_value w of
                    (w', Some e) \<Rightarrow> \<lparr>dialog = d, world = w', shown = [], raised = Some e\<rparr>
                  | (w', None) \<Rightarrow> \<lparr>dialog = close_window d, world = w', shown = [], raised = None\<rparr>))
          else \<lparr>dialog = d, world = w, shown = [missing_values], raised = None\<rparr>)"

section \<open>The imaging library and the file system\<close>

text \<open>
  Pillow is not part of the repository. An image is the record of the library calls that
  made it: the pixels some file held, \<open>resize\<close>, \<open>ImageDraw.text\<close>. A font is the one
  \<open>ImageFont.truetype(path, size)\<close> loaded, or the one \<open>ImageFont.load_default()\<close> returns
  (it is called without a size).
\<close>

datatype font = TrueType string int | DefaultFont

datatype image =
    Pixels nat
  | Resize image "nat \<times> nat"
  | DrawText image "int \<times> int" string "string option" font string

datatype contents = EmptyFile | ImageFile image | OtherFile

text \<open>
  What the code cannot see of its surroundings: how a path is made absolute, whether
  the font resource loads at a size (\<open>None\<close>: it loads; \<open>Some e\<close>: \<open>truetype\<close> raises
  \<open>e\<close>), and whether \<open>Image.save\<close> can write an image to a path.
\<close>

record env =
  abspath :: "string \<Rightarrow> string"
  truetype_error :: "string \<Rightarrow> int \<Rightarrow> error option"
  save_error :: "image \<Rightarrow> string \<Rightarrow> error option"

text \<open>The file system maps absolute paths to files.\<close>

type_synonym filesystem = "string \<rightharpoonup> contents"

definition Image_open :: "env \<Rightarrow> filesystem \<Rightarrow> string \<Rightarrow> error + image" where
  "Image_open e f p =
     (case f (abspath e p) of
        Some (ImageFile i) \<Rightarrow> Inr i
      | _ \<Rightarrow> Inl OSError)"

subsection \<open>\<open>int(str)\<close>\<close>

text \<open>
  Python's \<open>int\<close> on a string of ASCII characters: the white space of C (tab, line feed,
  vertical tab, form feed, carriage return, space) is dropped at both ends, one sign may
  lead, and the digits may be grouped by single underscores. A numeral of more digits
  than the interpreter's limit for the conversion (4300 unless it is configured otherwise;
  leading zeros count, underscores and the sign do not) raises \<open>ValueError\<close>. A string
  with any other character, among them every character beyond ASCII, is refused here.
\<close>

definition is_space :: "char \<Rightarrow> bool" where
  "is_space c = (of_char c \<in> {9, 10, 11, 12, 13, 32 :: nat})"

definition is_digit :: "char \<Rightarrow> bool" where
  "is_digit c = (48 \<le> (of_char c :: nat) \<and> (of_char c :: nat) \<le> 57)"

definition strip :: "string \<Rightarrow> string" where
  "strip z = rev (dropWhile is_space (rev (dropWhile is_space z)))"

definition max_str_digits :: nat where
  "max_str_digits = 4300"

fun py_digits :: "nat \<Rightarrow> bool \<Rightarrow> string \<Rightarrow> nat option" where
  "py_digits acc prev [] = (if prev then Some acc else None)"
| "py_digits acc prev (c # cs) =
     (if is_digit c then py_digits (acc * 10 + (of_char c - 48)) True cs
      else if c = CHR ''_'' \<and> prev then py_digits acc False cs
      else None)"

definition py_numeral :: "string \<Rightarrow> nat option" where
  "py_numeral ds =
     (if max_str_digits < length (filter is_digit ds) then None else py_digits 0 False ds)"

definition py_int :: "string \<Rightarrow> int option" where
  "py_int z =
     (case strip z of
        [] \<Rightarrow> None
      | c # cs \<Rightarrow>
          if c = CHR ''+'' then map_option int (py_numeral cs)
          else if c = CHR ''-'' then map_option (\<lambda>n. - int n) (py_numeral cs)
          else map_option int (py_numeral (c # cs)))"

section \<open>The canvas\<close>

text \<open>
  A \<open>PhotoImage\<close> is read from a file of the application or made from a Pillow image.
  A font option of Tk is the tuple (family, size, style).
\<close>

datatype photo = PhotoFile string | PhotoOf image

type_synonym tkfont = "string \<times> string \<times> string"

record text_item =
  at :: "int \<times> int"
  item_text :: string
  item_fill :: "string option"
  item_font :: "tkfont option"
  item_width :: "nat option"

datatype item = TextItem text_item | ImageItem "int \<times> int" photo

text \<open>A canvas numbers its items from 1 and never reuses a number.\<close>

record canvas =
  items :: "(nat \<times> item) list"
  next_id :: nat

definition Canvas :: canvas where
  "Canvas = \<lparr>items = [], next_id = 1\<rparr>"

definition create :: "canvas \<Rightarrow> item \<Rightarrow> canvas \<times> nat" where
  "create c it = (c\<lparr>items := items c @ [(next_id c, it)], next_id := Suc (next_id c)\<rparr>, next_id c)"

definition delete :: "canvas \<Rightarrow> nat \<Rightarrow> canvas" where
  "delete c i = c\<lparr>items := filter (\<lambda>(j, _). j \<noteq> i) (items c)\<rparr>"

text \<open>
  \<open>itemcget(i, "text")\<close> and \<open>itemconfig\<close>: an id that names no item gives the empty
  string and changes nothing; an item that has no such option raises \<open>TclError\<close>.
  \<open>itemconfig\<close> drops an option whose value is \<open>None\<close>. Tk's own checks of a colour
  name or a font size are not modelled: the values that reach them here are a hex code
  of the palette and a value of the spinbox.
\<close>

definition itemcget_text :: "canvas \<Rightarrow> nat \<Rightarrow> error + string" where
  "itemcget_text c i =
     (case map_of (items c) i of
        None \<Rightarrow> Inr []
      | Some (TextItem t) \<Rightarrow> Inr (item_text t)
      | Some (ImageItem _ _) \<Rightarrow> Inl TclError)"

definition set_item :: "canvas \<Rightarrow> nat \<Rightarrow> item \<Rightarrow> canvas" where
  "set_item c i it = c\<lparr>items := map (\<lambda>(j, old). if j = i then (j, it) else (j, old)) (items c)\<rparr>"

definition itemconfig_text :: "canvas \<Rightarrow> nat \<Rightarrow> string \<Rightarrow> string option \<Rightarrow> tkfont \<Rightarrow> error + canvas" where
  "itemconfig_text c i txt fill fnt =
     (case map_of (items c) i of
        None \<Rightarrow> Inr c
      | Some (TextItem t) \<Rightarrow>
          Inr (set_item c i (TextItem (t\<lparr>item_text := txt,
                 item_fill := (case fill of None \<Rightarrow> item_fill t | Some h \<Rightarrow> Some h),
                 item_font := Some fnt\<rparr>)))
      | Some (ImageItem _ _) \<Rightarrow> Inl TclError)"

definition itemconfig_image :: "canvas \<Rightarrow> nat \<Rightarrow> photo \<Rightarrow> error + canvas" where
  "itemconfig_image c i ph =
     (case map_of (items c) i of
        None \<Rightarrow> Inr c
      | Some (ImageItem xy _) \<Rightarrow> Inr (set_item c i (ImageItem xy ph))
      | Some (TextItem _) \<Rightarrow> Inl TclError)"

section \<open>ui.py\<close>

text \<open>
  The state of a run: the attributes of the \<open>ImageWindowMaker\<close> object, then what lies
  outside the object (the class attribute \<open>TextMenu.in_use\<close>, the \<open>TextMenu\<close> windows
  created so far, the file system, the message boxes shown and the lines printed).
  A button or label is the flag whether it is on the grid. The attributes that
  \<open>menu_start\<close> assigns are set from the constructor on; the others are unset until the
  method that assigns them has run. A widget that no attribute refers to any more (the
  canvas and the buttons of an earlier landing screen, which the new ones cover or which
  were taken off the grid) is not kept.
\<close>

record state =
  in_principal :: bool
  canvas :: canvas
  app_title :: nat
  app_image :: photo
  logo :: nat
  select_file_button :: bool
  credit_label :: bool
  search_file :: "string attr"
  text_watermarker :: "nat attr"
  new_image :: "photo attr"
  insert_text_button :: "bool attr"
  save_button :: "bool attr"
  return_button :: "bool attr"
  watermark_text :: "string attr"
  text_color :: "string option attr"
  font_size :: "string attr"
  font_value :: "string attr"
  text_window :: "nat attr"
  in_use :: bool
  windows :: "widgets list"
  fs :: filesystem
  messages :: "(string \<times> string) list"
  printed :: "string list"

text \<open>
  \<open>menu_start\<close>: a new canvas with the title (item 1) and the icon (item 2), a new
  \<open>Select File\<close> button and a new credits label, all three on the grid. The icon file
  ships with the application and is taken to load.
\<close>

definition menu_start :: "state \<Rightarrow> state" where
  "menu_start s =
     (let (c1, title) = create Canvas
            (TextItem \<lparr>at = (300, 100), item_text = ''Add a Watermark'', item_fill = None,
               item_font = Some (''TkMenuFont'', ''30'', ''bold''), item_width = None\<rparr>);
          icon = PhotoFile ''images/watermaker_icon.png'';
          (c2, lg) = create c1 (ImageItem (300, 300) icon)
      in s\<lparr>canvas := c2, app_title := title, app_image := icon, logo := lg,
            select_file_button := True, credit_label := True\<rparr>)"

text \<open>
  \<open>__init__\<close>, up to the event loop: \<open>in_principal = True\<close>, then \<open>menu_start()\<close>; the
  file system is the one the program starts in.
\<close>

definition init :: "filesystem \<Rightarrow> state" where
  "init f =
     menu_start
       \<lparr>in_principal = True, canvas = Canvas, app_title = 0, app_image = PhotoFile [], logo = 0,
        select_file_button = False, credit_label = False,
        search_file = None, text_watermarker = None, new_image = None,
        insert_text_button = None, save_button = None, return_button = None,
        watermark_text = None, text_color = None, font_size = None, font_value = None,
        text_window = None, in_use = False, windows = [], fs = f, messages = [], printed = []\<rparr>"

definition setting_buttons :: "bool \<Rightarrow> state \<Rightarrow> state" where
  "setting_buttons st s =
     (if \<not> st then
        s\<lparr>select_file_button := False, insert_text_button := Some True,
          save_button := Some True, return_button := Some True\<rparr>
      else s)"

definition add_image :: "env \<Rightarrow> state \<Rightarrow> state \<times> error option" where
  "add_image e s =
     (let (c, t) = create (canvas s)
            (TextItem \<lparr>at = (300, 500), item_text = [], item_fill = None,
               item_font = None, item_width = Some 500\<rparr>);
          s1 = s\<lparr>canvas := c, text_watermarker := Some t\<rparr>
      in case search_file s1 of
           None \<Rightarrow> (s1, Some (AttributeError ''search_file''))
         | Some p \<Rightarrow>
             (case Image_open e (fs s1) p of
                Inl x \<Rightarrow> (s1, Some x)
              | Inr opened \<Rightarrow>
                  let resized_image = Resize opened (600, 600);
                      s2 = s1\<lparr>new_image := Some (PhotoOf resized_image)\<rparr>
                  in case itemconfig_image (canvas s2) (logo s2) (PhotoOf resized_image) of
                       Inl x \<Rightarrow> (s2, Some x)
                     | Inr c' \<Rightarrow> (s2\<lparr>canvas := c'\<rparr>, None)))"

text \<open>
  \<open>change_menu\<close>: the argument is what \<open>askopenfilename\<close> returned, the empty string
  when the user cancelled. It is stored before it is tested.
\<close>

definition change_menu :: "env \<Rightarrow> string \<Rightarrow> state \<Rightarrow> state \<times> error option" where
  "change_menu e picked s =
     (let s1 = s\<lparr>search_file := Some picked\<rparr>
      in if in_principal s1 \<and> picked \<noteq> [] then
           let s2 = s1\<lparr>in_principal := False\<rparr>;
               s3 = s2\<lparr>canvas := delete (canvas s2) (app_title s2)\<rparr>;
               s4 = s3\<lparr>credit_label := False\<rparr>;
               s5 = setting_buttons (in_principal s4) s4
           in add_image e s5
         else (s1, None))"

text \<open>
  The \<open>try\<close> block of \<open>save_image\<close>: the attribute is read, \<open>int\<close> converts it, the
  font is loaded; only an \<open>IOError\<close> is caught, and answered with the default font.
\<close>

definition font_path :: string where
  "font_path = ''path_to_font.ttf''"

definition load_font :: "env \<Rightarrow> state \<Rightarrow> error + font" where
  "load_font e s =
     (case font_size s of
        None \<Rightarrow> Inl (AttributeError ''font_size'')
      | Some z \<Rightarrow>
          (case py_int z of
             None \<Rightarrow> Inl ValueError
           | Some n \<Rightarrow>
               (case truetype_error e font_path n of
                  None \<Rightarrow> Inr (TrueType font_path n)
                | Some x \<Rightarrow> if x = OSError then Inr DefaultFont else Inl x)))"

definition image_saved :: "string \<times> string" where
  "image_saved = (''Image saved'', ''File saved correctly.'')"

text \<open>
  \<open>save_image\<close>: the argument is what \<open>asksaveasfile(mode='w')\<close> returned, \<open>None\<close> when
  the user cancelled and otherwise the name of the file it has opened for writing, which
  is empty from then on. A failing \<open>Image.save\<close> is taken to leave the file as it is.
\<close>

definition save_image :: "env \<Rightarrow> string option \<Rightarrow> state \<Rightarrow> state \<times> error option" where
  "save_image e file_to_save s =
     (case file_to_save of
        None \<Rightarrow> (s, None)
      | Some name \<Rightarrow>
          let abs_path = abspath e name;
              s0 = s\<lparr>fs := (fs s)(abs_path \<mapsto> EmptyFile)\<rparr>
          in case search_file s0 of
               None \<Rightarrow> (s0, Some (AttributeError ''search_file''))
             | Some p \<Rightarrow>
           (case Image_open e (fs s0) p of
              Inl x \<Rightarrow> (s0, Some x)
            | Inr opened \<Rightarrow>
           let editable_image = Resize opened (600, 600)
           in case text_watermarker s0 of
                None \<Rightarrow> (s0, Some (AttributeError ''text_watermarker''))
              | Some t \<Rightarrow>
           (case itemcget_text (canvas s0) t of
              Inl x \<Rightarrow> (s0, Some x)
            | Inr text_value \<Rightarrow>
           (case load_font e s0 of
              Inl x \<Rightarrow> (s0, Some x)
            | Inr fnt \<Rightarrow>
           (case text_color s0 of
              None \<Rightarrow> (s0, Some (AttributeError ''text_color''))
            | Some fill \<Rightarrow>
           let drawn = DrawText editable_image (300, 500) text_value fill fnt ''ms''
           in case save_error e drawn abs_path of
                Some x \<Rightarrow> (s0, Some x)
              | None \<Rightarrow>
                  (s0\<lparr>fs := (fs s0)(abs_path \<mapsto> ImageFile drawn),
                      messages := messages s0 @ [image_saved],
                      printed := printed s0 @ [''Image saved in: '' @ abs_path]\<rparr>, None))))))"

definition return_to_principal :: "state \<Rightarrow> state \<times> error option" where
  "return_to_principal s =
     (let s1 = s\<lparr>in_principal := True\<rparr>
      in case insert_text_button s1 of
           None \<Rightarrow> (s1, Some (AttributeError ''insert_text_button''))
         | Some _ \<Rightarrow>
       let s2 = s1\<lparr>insert_text_button := Some False\<rparr>
       in case return_button s2 of
            None \<Rightarrow> (s2, Some (AttributeError ''return_button''))
          | Some _ \<Rightarrow>
       let s3 = s2\<lparr>return_button := Some False\<rparr>
       in case save_button s3 of
            None \<Rightarrow> (s3, Some (AttributeError ''save_button''))
          | Some _ \<Rightarrow> (menu_start (s3\<lparr>save_button := Some False\<rparr>), None))"

definition values_received :: "string \<Rightarrow> string option \<Rightarrow> string \<Rightarrow> string \<Rightarrow> state \<Rightarrow> state \<times> error option" where
  "values_received r_text r_color_text r_font_size r_font_value s =
     (let s1 = s\<lparr>watermark_text := Some r_text, text_color := Some r_color_text,
                 font_size := Some r_font_size, font_value := Some r_font_value\<rparr>
      in case text_watermarker s1 of
           None \<Rightarrow> (s1, Some (AttributeError ''text_watermarker''))
         | Some t \<Rightarrow>
             (case itemconfig_text (canvas s1) t r_text r_color_text (r_font_value, r_font_size, ''bold'') of
                Inl x \<Rightarrow> (s1, Some x)
              | Inr c \<Rightarrow> (s1\<lparr>canvas := c\<rparr>, None)))"

text \<open>
  \<open>open_text_settings\<close>: \<open>TextMenu(callback=self.values_received)\<close> makes a new window,
  whose constructor leaves \<open>TextMenu.in_use\<close> alone. The window is kept by its widgets;
  its callback is always \<open>values_received\<close>. The constructor also asks the toolkit for
  the input grab (\<open>grab_set\<close>); what the toolkit then does with clicks on the main
  window is not part of this method and is not modelled.
\<close>

definition open_text_settings :: "state \<Rightarrow> state" where
  "open_text_settings s =
     (if \<not> in_use s then
        s\<lparr>windows := windows s @ [widgets.truncate (TextMenu_init (Some values_received))],
          text_window := Some (length (windows s))\<rparr>
      else s)"

subsection \<open>The user at a \<open>TextMenu\<close> window of the application\<close>

text \<open>
  The user fills in the inputs of window \<open>i\<close>, and presses its \<open>Apply changes\<close> button,
  which runs \<open>apply_changes\<close> with \<open>values_received\<close> as the callback.
\<close>

definition fill_in :: "nat \<Rightarrow> string \<Rightarrow> string \<Rightarrow> string \<Rightarrow> string \<Rightarrow> state \<Rightarrow> state" where
  "fill_in i t c z f s =
     (if i < length (windows s) \<and> \<not> destroyed (windows s ! i) then
        s\<lparr>windows := (windows s)[i := (windows s ! i)\<lparr>text_entry := t, color_box := c, spinbox := z, font_box := f\<rparr>]\<rparr>
      else s)"

definition press_apply :: "nat \<Rightarrow> state \<Rightarrow> state \<times> error option" where
  "press_apply i s =
     (if i < length (windows s) then
        let r = apply_changes (widgets.extend (windows s ! i) (TextMenu.fields (Some values_received))) s;
            s' = world r
        in (s'\<lparr>windows := (windows s')[i := widgets.truncate (dialog r)],
                messages := messages s' @ shown r\<rparr>, raised r)
      else (s, None))"

section \<open>A window from opening to closing\<close>

text \<open>
  What a user can do at a \<open>TextMenu\<close> window: change one of the four inputs, or press
  \<open>Apply changes\<close>. The widgets of a destroyed window are gone, so nothing changes
  there any more.
\<close>

datatype action = Type_text string | Pick_color string | Pick_size string | Pick_font string | Press_apply

fun act :: "action \<Rightarrow> 'w TextMenu \<times> 'w \<Rightarrow> 'w TextMenu \<times> 'w" where
  "act (Type_text t) (d, w) = (if destroyed d then (d, w) else (d\<lparr>text_entry := t\<rparr>, w))"
| "act (Pick_color c) (d, w) = (if destroyed d then (d, w) else (d\<lparr>color_box := c\<rparr>, w))"
| "act (Pick_size z) (d, w) = (if destroyed d then (d, w) else (d\<lparr>spinbox := z\<rparr>, w))"
| "act (Pick_font f) (d, w) = (if destroyed d then (d, w) else (d\<lparr>font_box := f\<rparr>, w))"
| "act Press_apply (d, w) = (let r = apply_changes d w in (dialog r, world r))"

fun lifetime :: "action list \<Rightarrow> 'w TextMenu \<times> 'w \<Rightarrow> 'w TextMenu \<times> 'w" where
  "lifetime [] st = st"
| "lifetime (a # as) st = lifetime as (act a st)"

text \<open>
  A callback that writes down every call it receives: its owner's state is the list of
  the calls so far.
\<close>

type_synonym call = "string \<times> string option \<times> string \<times> string"

definition record_call :: "call list callback" where
  "record_call t c z f calls = (calls @ [(t, c, z, f)], None)"

text \<open>
  The window and the recorded calls belong together in one of two ways: the window is
  open and nothing was recorded, or it is destroyed and the one recorded call carries
  the values of its four inputs, none of them empty.
\<close>

definition fired_once :: "call list TextMenu \<times> call list \<Rightarrow> bool" where
  "fired_once st =
     (case st of (d, calls) \<Rightarrow>
        callback d = Some record_call \<and>
        (if destroyed d then
           calls = [(text_entry d, COLORS_AND_CODE (color_box d), spinbox d, font_box d)] \<and>
           text_entry d \<noteq> [] \<and> color_box d \<noteq> [] \<and> spinbox d \<noteq> [] \<and> font_box d \<noteq> []
         else calls = []))"

section \<open>A sample run\<close>

text \<open>
  Paths are made absolute under \<open>/home/user\<close>. The font file of \<open>save_image\<close> is a
  placeholder name; in \<open>no_font\<close> it cannot be loaded, in \<open>with_font\<close> it can. The disk
  holds one picture.
\<close>

definition no_font :: env where
  "no_font =
     \<lparr>abspath = (\<lambda>p. case p of [] \<Rightarrow> ''/home/user'' | c # _ \<Rightarrow> if c = CHR ''/'' then p else ''/home/user/'' @ p),
      truetype_error = (\<lambda>_ _. Some OSError),
      save_error = (\<lambda>_ _. None)\<rparr>"

definition with_font :: env where
  "with_font = no_font\<lparr>truetype_error := (\<lambda>_ _. None)\<rparr>"

text \<open>
  In \<open>no_format\<close> the font cannot be loaded either, and \<open>Image.save\<close> finds no
  image format for a path that ends in \<open>.xyz\<close>: it raises \<open>ValueError\<close> there.
\<close>

definition no_format :: env where
  "no_format =
     no_font\<lparr>save_error := (\<lambda>_ p. if drop (length p - 4) p = ''.xyz'' then Some ValueError else None)\<rparr>"

definition disk :: filesystem where
  "disk = [''/home/user/photo.png'' \<mapsto> ImageFile (Pixels 0)]"

text \<open>A dialog with all four inputs filled in, whose callback records its calls.\<close>

definition filled :: "call list TextMenu" where
  "filled =
     \<lparr>text_entry = ''hello'', color_box = ''Red'', spinbox = ''40'', font_box = ''Arial'',
      destroyed = False, callback = Some record_call\<rparr>"

text \<open>The program is started and the picture is selected.\<close>

definition editing :: state where
  "editing = fst (change_menu no_font ''/home/user/photo.png'' (init disk))"

text \<open>
  Then the dialog is opened, filled in with a font size and a font family, and confirmed.
\<close>

definition marked :: "string \<Rightarrow> string \<Rightarrow> state" where
  "marked z family =
     fst (press_apply 0 (fill_in 0 ''hello'' ''Red'' z family (open_text_settings editing)))"

section \<open>The dialog: validation and the callback\<close>

lemma apply_changes_missing:
  "\<not> destroyed d \<Longrightarrow> text_entry d = [] \<or> color_box d = [] \<or> spinbox d = [] \<or> font_box d = [] \<Longrightarrow>
   apply_changes d w = \<lparr>dialog = d, world = w, shown = [missing_values], raised = None\<rparr>"
  by (auto simp: apply_changes_def)

lemma apply_changes_filled:
  "\<not> destroyed d \<Longrightarrow> text_entry d \<noteq> [] \<Longrightarrow> color_box d \<noteq> [] \<Longrightarrow> spinbox d \<noteq> [] \<Longrightarrow> font_box d \<noteq> [] \<Longrightarrow>
   callback d = Some cb \<Longrightarrow>
   cb (text_entry d) (COLORS_AND_CODE (color_box d)) (spinbox d) (font_box d) w = (w', x) \<Longrightarrow>
   apply_changes d w =
     \<lparr>dialog = (if x = None then close_window d else d), world = w', shown = [], raised = x\<rparr>"
  by (cases x) (simp_all add: apply_changes_def)

lemma act_fired_once: "fired_once st \<Longrightarrow> fired_once (act a st)"
  by (cases st; cases a)
     (auto simp: fired_once_def apply_changes_def close_window_def record_call_def Let_def
           split: if_splits)

lemma lifetime_fired_once: "fired_once st \<Longrightarrow> fired_once (lifetime as st)"
  by (induction as arbitrary: st) (simp_all add: act_fired_once)

lemma init_fired_once: "fired_once (TextMenu_init (Some record_call), [])"
  by (simp add: fired_once_def TextMenu_init_def)

lemma fired_once_length: "fired_once (d, calls) \<Longrightarrow> length calls \<le> 1"
  by (auto simp: fired_once_def split: if_splits)

text \<open>
  C3. In an open dialog, \<open>apply_changes\<close> with an empty field shows the validation
  message, calls nothing and leaves the dialog open. With all four fields filled in and a
  registered callback that returns, the state of the owner is the one the callback
  returns from one call with (text, hex colour, font size, font family), no message is
  shown and the dialog is closed. Over any sequence of inputs and presses of the button,
  from the opening of the dialog on, a callback that records its calls has at most one
  call, made with the four fields non-empty (\<open>fired_once\<close>).
\<close>

theorem apply_changes_confirm:
  assumes "\<not> destroyed d"
  shows "(text_entry d = [] \<or> color_box d = [] \<or> spinbox d = [] \<or> font_box d = [] \<longrightarrow>
            apply_changes d w = \<lparr>dialog = d, world = w, shown = [missing_values], raised = None\<rparr>) \<and>
         (text_entry d \<noteq> [] \<and> color_box d \<noteq> [] \<and> spinbox d \<noteq> [] \<and> font_box d \<noteq> [] \<and>
          callback d = Some cb \<and>
          cb (text_entry d) (COLORS_AND_CODE (color_box d)) (spinbox d) (font_box d) w = (w', None) \<longrightarrow>
            apply_changes d w = \<lparr>dialog = close_window d, world = w', shown = [], raised = None\<rparr>) \<and>
         fired_once (lifetime as (TextMenu_init (Some record_call), [])) \<and>
         length (snd (lifetime as (TextMenu_init (Some record_call), []))) \<le> 1"
proof -
  have once: "fired_once (lifetime as (TextMenu_init (Some record_call), []))"
    by (rule lifetime_fired_once [OF init_fired_once])
  then have "length (snd (lifetime as (TextMenu_init (Some record_call), []))) \<le> 1"
    by (cases "lifetime as (TextMenu_init (Some record_call), [])") (auto dest: fired_once_length)
  with once assms show ?thesis
    by (auto simp: apply_changes_missing apply_changes_filled)
qed

theorem apply_changes_confirm_witness:
  "apply_changes (filled\<lparr>spinbox := []\<rparr>) [] =
     \<lparr>dialog = filled\<lparr>spinbox := []\<rparr>, world = [], shown = [missing_values], raised = None\<rparr> \<and>
   apply_changes filled [] =
     \<lparr>dialog = close_window filled, world = [(''hello'', Some ''#a32424'', ''40'', ''Arial'')],
      shown = [], raised = None\<rparr> \<and>
   snd (lifetime [Type_text ''hello'', Press_apply, Pick_color ''Red'', Pick_size ''40'',
                  Pick_font ''Arial'', Press_apply, Press_apply, Type_text ''again'', Press_apply]
          (TextMenu_init (Some record_call), [])) = [(''hello'', Some ''#a32424'', ''40'', ''Arial'')]"
proof -
  have a: "\<not> destroyed (filled\<lparr>spinbox := []\<rparr>)" and b: "\<not> destroyed filled"
    by (simp_all add: filled_def)
  have c: "record_call (text_entry filled) (COLORS_AND_CODE (color_box filled)) (spinbox filled) (font_box filled) []
       = ([(''hello'', Some ''#a32424'', ''40'', ''Arial'')], None)"
    by (simp add: filled_def record_call_def COLORS_AND_CODE_def)
  have l: "snd (lifetime [Type_text ''hello'', Press_apply, Pick_color ''Red'', Pick_size ''40'',
                  Pick_font ''Arial'', Press_apply, Press_apply, Type_text ''again'', Press_apply]
          (TextMenu_init (Some record_call), [])) = [(''hello'', Some ''#a32424'', ''40'', ''Arial'')]"
    by (simp add: TextMenu_init_def apply_changes_def record_call_def COLORS_AND_CODE_def close_window_def Let_def)
  show ?thesis
    using apply_changes_confirm [OF a, of "[]" record_call "[]" "[]"]
          apply_changes_confirm [OF b, of "[]" record_call "[(''hello'', Some ''#a32424'', ''40'', ''Arial'')]" "[]"] c l
    by (simp add: filled_def)
qed

text \<open>
  C4. When all four fields are filled in, the registered callback is called with the text
  as it was entered and with what the palette \<open>COLORS_AND_CODE\<close> gives for the selected
  colour name: the owner's state and the exception after \<open>apply_changes\<close> are those of
  that one call. The palette maps \<open>Red\<close> to \<open>#a32424\<close>, so with \<open>Red\<close> selected the call
  carries \<open>#a32424\<close>.
\<close>

theorem confirm_passes_palette_code:
  assumes "\<not> destroyed d"
    and "text_entry d \<noteq> []" and "color_box d \<noteq> []" and "spinbox d \<noteq> []" and "font_box d \<noteq> []"
    and "callback d = Some cb"
  shows "world (apply_changes d w) = fst (cb (text_entry d) (COLORS_AND_CODE (color_box d)) (spinbox d) (font_box d) w) \<and>
         raised (apply_changes d w) = snd (cb (text_entry d) (COLORS_AND_CODE (color_box d)) (spinbox d) (font_box d) w) \<and>
         COLORS_AND_CODE ''Red'' = Some ''#a32424'' \<and>
         (color_box d = ''Red'' \<longrightarrow>
            world (apply_changes d w) = fst (cb (text_entry d) (Some ''#a32424'') (spinbox d) (font_box d) w))"
proof -
  obtain w' x where r: "cb (text_entry d) (COLORS_AND_CODE (color_box d)) (spinbox d) (font_box d) w = (w', x)"
    by (cases "cb (text_entry d) (COLORS_AND_CODE (color_box d)) (spinbox d) (font_box d) w")
  have red: "COLORS_AND_CODE ''Red'' = Some ''#a32424''"
    by (simp add: COLORS_AND_CODE_def)
  from apply_changes_filled [OF assms r] r red show ?thesis
    by auto
qed

theorem confirm_passes_palette_code_witness:
  "world (apply_changes filled []) = [(''hello'', Some ''#a32424'', ''40'', ''Arial'')]"
proof -
  have "\<not> destroyed filled" "text_entry filled \<noteq> []" "color_box filled \<noteq> []"
    "spinbox filled \<noteq> []" "font_box filled \<noteq> []" "callback filled = Some record_call"
    by (simp_all add: filled_def)
  from confirm_passes_palette_code [OF this, of "[]"] show ?thesis
    by (simp add: filled_def record_call_def)
qed

text \<open>
  C10. The validation compares each field with the empty string and nothing else: a text
  entry that is not empty and holds white space only, with the other three fields filled
  in, counts as filled. The callback is called with that text; when it returns, the
  dialog is closed (the window is destroyed) and no message is shown.
\<close>

theorem confirm_accepts_whitespace:
  assumes "\<not> destroyed d"
    and "text_entry d \<noteq> []" and "list_all is_space (text_entry d)"
    and "color_box d \<noteq> []" and "spinbox d \<noteq> []" and "font_box d \<noteq> []"
    and "callback d = Some cb"
    and "cb (text_entry d) (COLORS_AND_CODE (color_box d)) (spinbox d) (font_box d) w = (w', None)"
  shows "apply_changes d w = \<lparr>dialog = close_window d, world = w', shown = [], raised = None\<rparr> \<and>
         destroyed (dialog (apply_changes d w)) \<and>
         text_entry (dialog (apply_changes d w)) = text_entry d \<and>
         world (apply_changes d w) = w' \<and>
         shown (apply_changes d w) = [] \<and>
         raised (apply_changes d w) = None"
  using apply_changes_filled [OF assms(1,2,4-8)] by (simp add: close_window_def)

theorem confirm_accepts_whitespace_witness:
  "apply_changes (filled\<lparr>text_entry := ''   ''\<rparr>) [] =
     \<lparr>dialog = close_window (filled\<lparr>text_entry := ''   ''\<rparr>),
      world = [(''   '', Some ''#a32424'', ''40'', ''Arial'')], shown = [], raised = None\<rparr> \<and>
   destroyed (dialog (apply_changes (filled\<lparr>text_entry := ''   ''\<rparr>) [])) \<and>
   \<not> destroyed (filled\<lparr>text_entry := ''   ''\<rparr>) \<and>
   world (apply_changes (filled\<lparr>text_entry := ''   ''\<rparr>) []) = [(''   '', Some ''#a32424'', ''40'', ''Arial'')]"
proof -
  let ?d = "filled\<lparr>text_entry := ''   ''\<rparr>"
  have "\<not> destroyed ?d" "text_entry ?d \<noteq> []" "list_all is_space (text_entry ?d)"
    "color_box ?d \<noteq> []" "spinbox ?d \<noteq> []" "font_box ?d \<noteq> []" "callback ?d = Some record_call"
    "record_call (text_entry ?d) (COLORS_AND_CODE (color_box ?d)) (spinbox ?d) (font_box ?d) []
       = ([(''   '', Some ''#a32424'', ''40'', ''Arial'')], None)"
    by (simp_all add: filled_def is_space_def record_call_def COLORS_AND_CODE_def)
  from confirm_accepts_whitespace [OF this] show ?thesis
    by (simp add: filled_def close_window_def)
qed

section \<open>The guard of the dialog\<close>

text \<open>
  C1. \<open>TextMenu.in_use\<close> is never assigned: it is still \<open>False\<close> while a dialog is
  open, so the guard of \<open>open_text_settings\<close> lets a second call through. After one
  call in the editing state one window is open; after a second call two are.
\<close>

theorem second_dialog_opens:
  "length (filter (\<lambda>w. \<not> destroyed w) (windows (open_text_settings editing))) = 1 \<and>
   \<not> in_use (open_text_settings editing) \<and>
   length (filter (\<lambda>w. \<not> destroyed w) (windows (open_text_settings (open_text_settings editing)))) = 2"
  by code_simp

text \<open>No method of the main window assigns the flag either.\<close>

lemma in_use_unchanged:
  "in_use (fst (change_menu e picked s)) = in_use s"
  "in_use (fst (save_image e chosen s)) = in_use s"
  "in_use (fst (return_to_principal s)) = in_use s"
  "in_use (open_text_settings s) = in_use s"
  "in_use (fst (values_received t c z f s)) = in_use s"
  by (simp_all add: change_menu_def add_image_def setting_buttons_def save_image_def
        return_to_principal_def menu_start_def open_text_settings_def values_received_def Let_def
        split: prod.splits option.splits sum.splits)

section \<open>Saving\<close>

text \<open>
  C2. With a picture selected and no watermark ever applied, \<open>font_size\<close> and
  \<open>text_color\<close> are unset. A confirmed save reads \<open>self.font_size\<close> inside the \<open>try\<close>
  block, the \<open>AttributeError\<close> is not an \<open>IOError\<close> and leaves \<open>save_image\<close>: no image is
  written (the chosen file stays as the picker opened it, empty) and no message is shown.
\<close>

theorem save_without_watermark_raises:
  "snd (save_image no_font (Some ''out.png'') editing) = Some (AttributeError ''font_size'') \<and>
   fs (fst (save_image no_font (Some ''out.png'') editing)) ''/home/user/out.png'' = Some EmptyFile \<and>
   messages (fst (save_image no_font (Some ''out.png'') editing)) = []"
  by code_simp

text \<open>
  A save that goes through: the picture at \<open>search_file\<close> is still an image file once
  the chosen file has been opened, the overlay item and the stored colour can be read, a
  font is found, and \<open>Image.save\<close> can write.
\<close>

lemma load_font_fs [simp]: "load_font e (s\<lparr>fs := f\<rparr>) = load_font e s"
  by (simp add: load_font_def)

lemma save_image_writes:
  assumes "search_file s = Some p"
    and "((fs s)(abspath e name \<mapsto> EmptyFile)) (abspath e p) = Some (ImageFile img)"
    and "text_watermarker s = Some t"
    and "itemcget_text (canvas s) t = Inr txt"
    and "load_font e s = Inr fnt"
    and "text_color s = Some fill"
    and "save_error e (DrawText (Resize img (600, 600)) (300, 500) txt fill fnt ''ms'') (abspath e name) = None"
  shows "save_image e (Some name) s =
           (s\<lparr>fs := (fs s)(abspath e name \<mapsto>
                   ImageFile (DrawText (Resize img (600, 600)) (300, 500) txt fill fnt ''ms'')),
               messages := messages s @ [image_saved],
               printed := printed s @ [''Image saved in: '' @ abspath e name]\<rparr>, None)"
  using assms by (simp add: save_image_def Image_open_def Let_def)

lemma marked_fields:
  "font_size (marked ''40'' ''Arial'') = Some ''40''"
  "text_color (marked ''40'' ''Arial'') = Some (Some ''#a32424'')"
  "search_file (marked ''40'' ''Arial'') = Some ''/home/user/photo.png''"
  "text_watermarker (marked ''40'' ''Arial'') = Some 3"
  "itemcget_text (canvas (marked ''40'' ''Arial'')) 3 = Inr ''hello''"
  "messages (marked ''40'' ''Arial'') = []"
  "printed (marked ''40'' ''Arial'') = []"
  by code_simp+

lemma marked_fs: "fs (marked ''40'' ''Arial'') = disk"
  by (simp add: marked_def press_apply_def fill_in_def open_text_settings_def editing_def
      change_menu_def add_image_def setting_buttons_def init_def menu_start_def
      apply_changes_def values_received_def Let_def create_def Canvas_def delete_def
      TextMenu_init_def widgets.truncate_def widgets.extend_def TextMenu.fields_def
      Image_open_def itemconfig_image_def itemconfig_text_def set_item_def no_font_def disk_def
      close_window_def COLORS_AND_CODE_def split: prod.splits)

lemma py_int_40: "py_int ''40'' = Some 40"
  by code_simp

text \<open>
  C6, as the code has it. A font size and a colour are stored (a watermark has been
  applied), the stored size is a numeral, and loading the font file raises \<open>IOError\<close>.
  Then the \<open>try\<close> block yields the default font: the failure of the font never leaves
  \<open>save_image\<close>. What \<open>save_image\<close> raises is what re-opening the picture raises, or
  else what \<open>Image.save\<close> raises on the picture with the text drawn in the default
  font. When the picture can be re-opened and the result can be written, \<open>save_image\<close>
  returns without an exception: the chosen path holds that picture and the success
  message is shown.
\<close>

theorem save_falls_back_to_default_font:
  assumes "font_size s = Some z" and "py_int z = Some n" and "text_color s = Some fill"
    and "truetype_error e font_path n = Some OSError"
    and "search_file s = Some p"
    and "text_watermarker s = Some t"
    and "itemcget_text (canvas s) t = Inr txt"
  shows "load_font e s = Inr DefaultFont \<and>
         snd (save_image e (Some name) s) =
           (case Image_open e ((fs s)(abspath e name \<mapsto> EmptyFile)) p of
              Inl x \<Rightarrow> Some x
            | Inr opened \<Rightarrow>
                save_error e (DrawText (Resize opened (600, 600)) (300, 500) txt fill DefaultFont ''ms'')
                  (abspath e name)) \<and>
         (((fs s)(abspath e name \<mapsto> EmptyFile)) (abspath e p) = Some (ImageFile img) \<and>
          save_error e (DrawText (Resize img (600, 600)) (300, 500) txt fill DefaultFont ''ms'')
            (abspath e name) = None \<longrightarrow>
          save_image e (Some name) s =
            (s\<lparr>fs := (fs s)(abspath e name \<mapsto>
                    ImageFile (DrawText (Resize img (600, 600)) (300, 500) txt fill DefaultFont ''ms'')),
                messages := messages s @ [image_saved],
                printed := printed s @ [''Image saved in: '' @ abspath e name]\<rparr>, None))"
proof -
  have f: "load_font e s = Inr DefaultFont"
    using assms(1,2,4) by (simp add: load_font_def)
  have raised: "snd (save_image e (Some name) s) =
      (case Image_open e ((fs s)(abspath e name \<mapsto> EmptyFile)) p of
         Inl x \<Rightarrow> Some x
       | Inr opened \<Rightarrow>
           save_error e (DrawText (Resize opened (600, 600)) (300, 500) txt fill DefaultFont ''ms'')
             (abspath e name))"
    using f assms(3,5,6,7)
    by (simp add: save_image_def Let_def split: sum.splits option.splits)
  have written: "save_image e (Some name) s =
      (s\<lparr>fs := (fs s)(abspath e name \<mapsto>
              ImageFile (DrawText (Resize img (600, 600)) (300, 500) txt fill DefaultFont ''ms'')),
          messages := messages s @ [image_saved],
          printed := printed s @ [''Image saved in: '' @ abspath e name]\<rparr>, None)"
    if "((fs s)(abspath e name \<mapsto> EmptyFile)) (abspath e p) = Some (ImageFile img)"
      and "save_error e (DrawText (Resize img (600, 600)) (300, 500) txt fill DefaultFont ''ms'')
            (abspath e name) = None"
    using save_image_writes [OF assms(5) that(1) assms(6,7) f assms(3) that(2)] .
  from f raised written show ?thesis
    by blast
qed

theorem save_falls_back_to_default_font_witness:
  "save_image no_font (Some ''out.png'') (marked ''40'' ''Arial'') =
     ((marked ''40'' ''Arial'')\<lparr>fs := disk(''/home/user/out.png'' \<mapsto>
          ImageFile (DrawText (Resize (Pixels 0) (600, 600)) (300, 500) ''hello'' (Some ''#a32424'') DefaultFont ''ms'')),
        messages := [image_saved],
        printed := [''Image saved in: /home/user/out.png'']\<rparr>, None) \<and>
   load_font no_font (marked ''40'' ''Arial'') = Inr DefaultFont"
proof -
  have a: "truetype_error no_font font_path 40 = Some OSError"
    by (simp add: no_font_def)
  have b: "((fs (marked ''40'' ''Arial''))(abspath no_font ''out.png'' \<mapsto> EmptyFile))
      (abspath no_font ''/home/user/photo.png'') = Some (ImageFile (Pixels 0))"
    by (simp add: marked_fs disk_def no_font_def)
  have c: "save_error no_font
      (DrawText (Resize (Pixels 0) (600, 600)) (300, 500) ''hello'' (Some ''#a32424'') DefaultFont ''ms'')
      (abspath no_font ''out.png'') = None"
    by (simp add: no_font_def)
  from save_falls_back_to_default_font [OF marked_fields(1) py_int_40 marked_fields(2) a
      marked_fields(3) marked_fields(4) marked_fields(5),
      where name = "''out.png''" and img = "Pixels 0"] b c
  show ?thesis
    by (simp add: marked_fs marked_fields no_font_def)
qed

text \<open>
  The claim C6 as stated fails where the save itself cannot go through: a watermark is
  applied, the font file cannot be loaded, and the user saves as \<open>out.xyz\<close>. The default
  font is substituted, then \<open>Image.save\<close> raises \<open>ValueError\<close>, which nothing catches:
  the chosen file stays empty and no message is shown.
\<close>

theorem save_to_unknown_format_raises:
  "font_size (marked ''40'' ''Arial'') = Some ''40'' \<and>
   text_color (marked ''40'' ''Arial'') = Some (Some ''#a32424'') \<and>
   truetype_error no_format font_path 40 = Some OSError \<and>
   load_font no_format (marked ''40'' ''Arial'') = Inr DefaultFont \<and>
   snd (save_image no_format (Some ''out.xyz'') (marked ''40'' ''Arial'')) = Some ValueError \<and>
   fs (fst (save_image no_format (Some ''out.xyz'') (marked ''40'' ''Arial''))) ''/home/user/out.xyz'' =
     Some EmptyFile \<and>
   messages (fst (save_image no_format (Some ''out.xyz'') (marked ''40'' ''Arial''))) = []"
  by code_simp

text \<open>
  C8, as the code has it. A font size and a colour are stored, the stored size is a
  numeral, the picture at \<open>search_file\<close> can be re-opened after the chosen file has been
  opened for writing, and the result can be written. Then the file at the absolute form of
  the chosen path is the picture resized to 600 by 600 with the text of the overlay item
  drawn at (300, 500), anchor \<open>ms\<close>, in the stored colour; the font is the font file at
  the stored size when it loads, and the default font, which takes no size, when loading
  raises \<open>IOError\<close>.
\<close>

theorem save_writes_composite:
  assumes "font_size s = Some z" and "py_int z = Some n" and "text_color s = Some fill"
    and "truetype_error e font_path n = None \<or> truetype_error e font_path n = Some OSError"
    and "search_file s = Some p"
    and "((fs s)(abspath e name \<mapsto> EmptyFile)) (abspath e p) = Some (ImageFile img)"
    and "text_watermarker s = Some t"
    and "itemcget_text (canvas s) t = Inr txt"
    and "fnt = (if truetype_error e font_path n = None then TrueType font_path n else DefaultFont)"
    and "save_error e (DrawText (Resize img (600, 600)) (300, 500) txt fill fnt ''ms'') (abspath e name) = None"
  shows "save_image e (Some name) s =
           (s\<lparr>fs := (fs s)(abspath e name \<mapsto>
                   ImageFile (DrawText (Resize img (600, 600)) (300, 500) txt fill fnt ''ms'')),
               messages := messages s @ [image_saved],
               printed := printed s @ [''Image saved in: '' @ abspath e name]\<rparr>, None)"
proof -
  have f: "load_font e s = Inr fnt"
    using assms(1,2,4,9) by (auto simp: load_font_def)
  from save_image_writes [OF assms(5-8) f assms(3) assms(10)] show ?thesis .
qed

theorem save_writes_composite_witness:
  "save_image with_font (Some ''out.png'') (marked ''40'' ''Arial'') =
     ((marked ''40'' ''Arial'')\<lparr>fs := disk(''/home/user/out.png'' \<mapsto>
          ImageFile (DrawText (Resize (Pixels 0) (600, 600)) (300, 500) ''hello'' (Some ''#a32424'')
                       (TrueType ''path_to_font.ttf'' 40) ''ms'')),
        messages := [image_saved],
        printed := [''Image saved in: /home/user/out.png'']\<rparr>, None)"
proof -
  have a: "truetype_error with_font font_path 40 = None \<or> truetype_error with_font font_path 40 = Some OSError"
    by (simp add: with_font_def)
  have b: "((fs (marked ''40'' ''Arial''))(abspath with_font ''out.png'' \<mapsto> EmptyFile))
      (abspath with_font ''/home/user/photo.png'') = Some (ImageFile (Pixels 0))"
    by (simp add: marked_fs disk_def no_font_def with_font_def)
  have c: "TrueType ''path_to_font.ttf'' 40 =
      (if truetype_error with_font font_path 40 = None then TrueType font_path 40 else DefaultFont)"
    by (simp add: with_font_def font_path_def)
  have d: "save_error with_font
      (DrawText (Resize (Pixels 0) (600, 600)) (300, 500) ''hello'' (Some ''#a32424'')
         (TrueType ''path_to_font.ttf'' 40) ''ms'')
      (abspath with_font ''out.png'') = None"
    by (simp add: no_font_def with_font_def)
  show ?thesis
    using save_writes_composite [OF marked_fields(1) py_int_40 marked_fields(2) a
        marked_fields(3) b marked_fields(4) marked_fields(5) c d]
    by (simp add: marked_fs marked_fields no_font_def with_font_def)
qed

text \<open>
  The claim C8 as stated fails where the font file cannot be loaded: with the stored size
  40 and with the stored size 80 the same file is written, drawn in the default font and
  not in a font of the stored size.
\<close>

theorem save_ignores_stored_size:
  "fs (fst (save_image no_font (Some ''out.png'') (marked ''40'' ''Arial''))) ''/home/user/out.png'' =
     Some (ImageFile (DrawText (Resize (Pixels 0) (600, 600)) (300, 500) ''hello'' (Some ''#a32424'') DefaultFont ''ms'')) \<and>
   fs (fst (save_image no_font (Some ''out.png'') (marked ''80'' ''Arial''))) ''/home/user/out.png'' =
     Some (ImageFile (DrawText (Resize (Pixels 0) (600, 600)) (300, 500) ''hello'' (Some ''#a32424'') DefaultFont ''ms'')) \<and>
   fs (fst (save_image no_font (Some ''out.png'') (marked ''40'' ''Arial''))) ''/home/user/out.png'' \<noteq>
     Some (ImageFile (DrawText (Resize (Pixels 0) (600, 600)) (300, 500) ''hello'' (Some ''#a32424'')
                        (TrueType ''path_to_font.ttf'' 40) ''ms'')) \<and>
   font_size (marked ''40'' ''Arial'') = Some ''40'' \<and> font_size (marked ''80'' ''Arial'') = Some ''80''"
  by code_simp

section \<open>The font family\<close>

lemma map_of_set_item:
  "map_of (items (set_item c i it)) j =
     (if j = i then map_option (\<lambda>_. it) (map_of (items c) i) else map_of (items c) j)"
proof -
  have "map_of (map (\<lambda>(k, old). if k = i then (k, it) else (k, old)) xs) j =
        (if j = i then map_option (\<lambda>_. it) (map_of xs i) else map_of xs j)" for xs
    by (induction xs) auto
  then show ?thesis
    by (simp add: set_item_def)
qed

lemma itemcget_after_itemconfig:
  "itemconfig_text c i txt fill fnt = Inr c' \<Longrightarrow>
   itemcget_text c' i = (if map_of (items c) i = None then Inr [] else Inr txt)"
  by (auto simp: itemconfig_text_def itemcget_text_def map_of_set_item
           split: option.splits item.splits)

lemma itemconfig_text_raises:
  "(itemconfig_text c i txt fill fnt = Inl x) = (itemconfig_text c i txt fill fnt' = Inl x)"
  by (auto simp: itemconfig_text_def split: option.splits item.splits)

text \<open>What \<open>save_image\<close> reads of the state, and what a confirmed dialog leaves of it.\<close>

lemma save_image_reads:
  assumes "search_file s1 = search_file s2" and "fs s1 = fs s2"
    and "text_watermarker s1 = text_watermarker s2"
    and "\<And>t. text_watermarker s1 = Some t \<Longrightarrow> itemcget_text (canvas s1) t = itemcget_text (canvas s2) t"
    and "font_size s1 = font_size s2" and "text_color s1 = text_color s2"
    and "messages s1 = messages s2" and "printed s1 = printed s2"
  shows "fs (fst (save_image e chosen s1)) = fs (fst (save_image e chosen s2)) \<and>
         messages (fst (save_image e chosen s1)) = messages (fst (save_image e chosen s2)) \<and>
         printed (fst (save_image e chosen s1)) = printed (fst (save_image e chosen s2)) \<and>
         snd (save_image e chosen s1) = snd (save_image e chosen s2)"
proof (cases chosen)
  case None
  with assms show ?thesis by (simp add: save_image_def)
next
  case (Some name)
  have lf: "load_font e s1 = load_font e s2"
    using assms(5) by (simp add: load_font_def)
  show ?thesis
  proof (cases "text_watermarker s1")
    case None
    with assms(1,2,3,7,8) Some show ?thesis
      by (simp add: save_image_def Let_def split: option.splits sum.splits)
  next
    case (Some t)
    from assms(4) [OF Some] have ic: "itemcget_text (canvas s1) t = itemcget_text (canvas s2) t" .
    from Some assms(3) have t2: "text_watermarker s2 = Some t" by simp
    show ?thesis
      using \<open>chosen = Some name\<close> Some t2 ic lf assms(1,2,6,7,8)
      by (simp add: save_image_def Let_def split: option.splits sum.splits)
  qed
qed

lemma values_received_reads:
  "search_file (fst (values_received t c z f s)) = search_file s"
  "fs (fst (values_received t c z f s)) = fs s"
  "text_watermarker (fst (values_received t c z f s)) = text_watermarker s"
  "font_size (fst (values_received t c z f s)) = Some z"
  "text_color (fst (values_received t c z f s)) = Some c"
  "messages (fst (values_received t c z f s)) = messages s"
  "printed (fst (values_received t c z f s)) = printed s"
  "windows (fst (values_received t c z f s)) = windows s"
  by (simp_all add: values_received_def Let_def split: option.splits sum.splits)

lemma values_received_text:
  assumes "text_watermarker s1 = Some i" and "text_watermarker s2 = Some i"
    and "canvas s1 = canvas s2"
  shows "itemcget_text (canvas (fst (values_received t c z f1 s1))) i =
         itemcget_text (canvas (fst (values_received t c z f2 s2))) i"
proof (cases "itemconfig_text (canvas s1) i t c (f1, z, ''bold'')")
  case (Inl x)
  then have "itemconfig_text (canvas s2) i t c (f2, z, ''bold'') = Inl x"
    using itemconfig_text_raises [of "canvas s1" i t c "(f1, z, ''bold'')" x "(f2, z, ''bold'')"] assms(3)
    by simp
  with Inl assms show ?thesis
    by (simp add: values_received_def)
next
  case (Inr c1)
  then obtain c2 where c2: "itemconfig_text (canvas s2) i t c (f2, z, ''bold'') = Inr c2"
    using itemconfig_text_raises [of "canvas s1" i t c "(f2, z, ''bold'')" _ "(f1, z, ''bold'')"] assms(3)
    by (cases "itemconfig_text (canvas s2) i t c (f2, z, ''bold'')") auto
  from itemcget_after_itemconfig [OF Inr] itemcget_after_itemconfig [OF c2] assms Inr c2
  show ?thesis
    by (simp add: values_received_def)
qed

lemma fill_in_reads:
  "search_file (fill_in i t c z f s) = search_file s"
  "fs (fill_in i t c z f s) = fs s"
  "text_watermarker (fill_in i t c z f s) = text_watermarker s"
  "canvas (fill_in i t c z f s) = canvas s"
  "font_size (fill_in i t c z f s) = font_size s"
  "text_color (fill_in i t c z f s) = text_color s"
  "messages (fill_in i t c z f s) = messages s"
  "printed (fill_in i t c z f s) = printed s"
  "length (windows (fill_in i t c z f s)) = length (windows s)"
  by (simp_all add: fill_in_def)

lemma fill_in_window:
  "i < length (windows s) \<Longrightarrow> \<not> destroyed (windows s ! i) \<Longrightarrow>
   windows (fill_in i t c z f s) ! i =
     (windows s ! i)\<lparr>text_entry := t, color_box := c, spinbox := z, font_box := f\<rparr>"
  by (simp add: fill_in_def)

lemma fill_in_skipped:
  "\<not> (i < length (windows s) \<and> \<not> destroyed (windows s ! i)) \<Longrightarrow> fill_in i t c z f s = s"
  by (auto simp: fill_in_def)

lemma press_apply_filled:
  assumes "i < length (windows s)" and "\<not> destroyed (windows s ! i)"
    and "t \<noteq> []" and "c \<noteq> []" and "z \<noteq> []" and "f \<noteq> []"
  shows "search_file (fst (press_apply i (fill_in i t c z f s))) = search_file s"
    and "fs (fst (press_apply i (fill_in i t c z f s))) = fs s"
    and "text_watermarker (fst (press_apply i (fill_in i t c z f s))) = text_watermarker s"
    and "font_size (fst (press_apply i (fill_in i t c z f s))) = Some z"
    and "text_color (fst (press_apply i (fill_in i t c z f s))) = Some (COLORS_AND_CODE c)"
    and "messages (fst (press_apply i (fill_in i t c z f s))) = messages s"
    and "printed (fst (press_apply i (fill_in i t c z f s))) = printed s"
    and "canvas (fst (press_apply i (fill_in i t c z f s))) =
           canvas (fst (values_received t (COLORS_AND_CODE c) z f (fill_in i t c z f s)))"
    and "snd (press_apply i (fill_in i t c z f s)) =
           snd (values_received t (COLORS_AND_CODE c) z f (fill_in i t c z f s))"
proof -
  let ?s = "fill_in i t c z f s"
  obtain s' x where r: "values_received t (COLORS_AND_CODE c) z f ?s = (s', x)"
    by (cases "values_received t (COLORS_AND_CODE c) z f ?s")
  have len: "i < length (windows ?s)"
    using assms(1) by (simp add: fill_in_reads)
  have p: "\<exists>ws. press_apply i ?s = (s'\<lparr>windows := ws, messages := messages s' @ []\<rparr>, x)"
    using len assms(2-6) fill_in_window [OF assms(1,2), of t c z f] r
    by (cases x)
       (auto simp: press_apply_def apply_changes_def Let_def
          widgets.extend_def TextMenu.fields_def)
  then obtain ws where q: "press_apply i ?s = (s'\<lparr>windows := ws, messages := messages s' @ []\<rparr>, x)" ..
  have s': "search_file s' = search_file s" "fs s' = fs s" "text_watermarker s' = text_watermarker s"
    "font_size s' = Some z" "text_color s' = Some (COLORS_AND_CODE c)"
    "messages s' = messages s" "printed s' = printed s"
    using values_received_reads [of t "COLORS_AND_CODE c" z f ?s] r
    by (simp_all add: fill_in_reads)
  show "search_file (fst (press_apply i ?s)) = search_file s"
    and "fs (fst (press_apply i ?s)) = fs s"
    and "text_watermarker (fst (press_apply i ?s)) = text_watermarker s"
    and "font_size (fst (press_apply i ?s)) = Some z"
    and "text_color (fst (press_apply i ?s)) = Some (COLORS_AND_CODE c)"
    and "messages (fst (press_apply i ?s)) = messages s"
    and "printed (fst (press_apply i ?s)) = printed s"
    and "canvas (fst (press_apply i ?s)) = canvas (fst (values_received t (COLORS_AND_CODE c) z f ?s))"
    and "snd (press_apply i ?s) = snd (values_received t (COLORS_AND_CODE c) z f ?s)"
    using q r s' by simp_all
qed

lemma press_apply_other:
  assumes "\<not> (i < length (windows s) \<and> \<not> destroyed (windows s ! i) \<and> t \<noteq> [] \<and> c \<noteq> [] \<and> z \<noteq> [])"
  shows "search_file (fst (press_apply i (fill_in i t c z f s))) = search_file s"
    and "fs (fst (press_apply i (fill_in i t c z f s))) = fs s"
    and "text_watermarker (fst (press_apply i (fill_in i t c z f s))) = text_watermarker s"
    and "canvas (fst (press_apply i (fill_in i t c z f s))) = canvas s"
    and "font_size (fst (press_apply i (fill_in i t c z f s))) = font_size s"
    and "text_color (fst (press_apply i (fill_in i t c z f s))) = text_color s"
    and "messages (fst (press_apply i (fill_in i t c z f s))) =
           messages s @ (if i < length (windows s) \<and> \<not> destroyed (windows s ! i) then [missing_values] else [])"
    and "printed (fst (press_apply i (fill_in i t c z f s))) = printed s"
    and "snd (press_apply i (fill_in i t c z f s)) =
           (if i < length (windows s) \<and> destroyed (windows s ! i) then Some TclError else None)"
proof -
  let ?s = "fill_in i t c z f s"
  let ?P = "press_apply i ?s"
  consider (none) "\<not> i < length (windows s)"
    | (gone) "i < length (windows s)" "destroyed (windows s ! i)"
    | (blank) "i < length (windows s)" "\<not> destroyed (windows s ! i)" "t = [] \<or> c = [] \<or> z = []"
    using assms by blast
  then have "search_file (fst ?P) = search_file s \<and> fs (fst ?P) = fs s \<and>
      text_watermarker (fst ?P) = text_watermarker s \<and> canvas (fst ?P) = canvas s \<and>
      font_size (fst ?P) = font_size s \<and> text_color (fst ?P) = text_color s \<and>
      messages (fst ?P) =
        messages s @ (if i < length (windows s) \<and> \<not> destroyed (windows s ! i) then [missing_values] else []) \<and>
      printed (fst ?P) = printed s \<and>
      snd ?P = (if i < length (windows s) \<and> destroyed (windows s ! i) then Some TclError else None)"
  proof cases
    case none
    then have "?s = s" by (simp add: fill_in_skipped)
    with none show ?thesis by (simp add: press_apply_def)
  next
    case gone
    then have "?s = s" by (simp add: fill_in_skipped)
    with gone show ?thesis
      by (simp add: press_apply_def apply_changes_def Let_def widgets.extend_def TextMenu.fields_def)
  next
    case blank
    have len: "i < length (windows ?s)"
      using blank(1) by (simp add: fill_in_reads)
    from blank(3) len blank(1,2) fill_in_window [OF blank(1,2), of t c z f] show ?thesis
      by (auto simp: press_apply_def apply_changes_def Let_def widgets.extend_def
            TextMenu.fields_def fill_in_reads)
  qed
  then show "search_file (fst ?P) = search_file s"
    and "fs (fst ?P) = fs s"
    and "text_watermarker (fst ?P) = text_watermarker s"
    and "canvas (fst ?P) = canvas s"
    and "font_size (fst ?P) = font_size s"
    and "text_color (fst ?P) = text_color s"
    and "messages (fst ?P) =
           messages s @ (if i < length (windows s) \<and> \<not> destroyed (windows s ! i) then [missing_values] else [])"
    and "printed (fst ?P) = printed s"
    and "snd ?P = (if i < length (windows s) \<and> destroyed (windows s ! i) then Some TclError else None)"
    by simp_all
qed

lemma save_image_font_value:
  "save_image e chosen (s\<lparr>font_value := v\<rparr>) =
     (case save_image e chosen s of (s', x) \<Rightarrow> (s'\<lparr>font_value := v\<rparr>, x))"
proof -
  have "load_font e (s\<lparr>font_value := v\<rparr>) = load_font e s"
    by (simp add: load_font_def)
  then show ?thesis
    by (simp add: save_image_def Let_def split: option.splits sum.splits)
qed

text \<open>
  C9. \<open>save_image\<close> does not read \<open>font_value\<close>: on two states that differ in it alone
  it does the same. And two runs from one state in which the dialog is filled in and
  confirmed with the same text, colour and size but with two font families, followed by
  the same save, end with the same files, the same messages, the same printed lines and
  the same exception, if any. (A family is a selected entry, so neither is empty.)
\<close>

theorem save_ignores_font_family:
  assumes "f1 \<noteq> []" and "f2 \<noteq> []"
  shows "save_image e chosen (s\<lparr>font_value := v\<rparr>) =
           (case save_image e chosen s of (s', x) \<Rightarrow> (s'\<lparr>font_value := v\<rparr>, x)) \<and>
         fs (fst (save_image e chosen (fst (press_apply i (fill_in i t c z f1 s))))) =
         fs (fst (save_image e chosen (fst (press_apply i (fill_in i t c z f2 s))))) \<and>
         messages (fst (save_image e chosen (fst (press_apply i (fill_in i t c z f1 s))))) =
         messages (fst (save_image e chosen (fst (press_apply i (fill_in i t c z f2 s))))) \<and>
         printed (fst (save_image e chosen (fst (press_apply i (fill_in i t c z f1 s))))) =
         printed (fst (save_image e chosen (fst (press_apply i (fill_in i t c z f2 s))))) \<and>
         snd (save_image e chosen (fst (press_apply i (fill_in i t c z f1 s)))) =
         snd (save_image e chosen (fst (press_apply i (fill_in i t c z f2 s))))"
proof -
  let ?A = "\<lambda>f. fst (press_apply i (fill_in i t c z f s))"
  have overlay: "itemcget_text (canvas (?A f1)) k = itemcget_text (canvas (?A f2)) k"
    if k: "text_watermarker (?A f1) = Some k" for k
  proof (cases "i < length (windows s) \<and> \<not> destroyed (windows s ! i) \<and> t \<noteq> [] \<and> c \<noteq> [] \<and> z \<noteq> []")
    case True
    then have k': "text_watermarker s = Some k"
      using k press_apply_filled(3) [of i s t c z f1] assms(1) by simp
    have "itemcget_text (canvas (fst (values_received t (COLORS_AND_CODE c) z f1 (fill_in i t c z f1 s)))) k =
          itemcget_text (canvas (fst (values_received t (COLORS_AND_CODE c) z f2 (fill_in i t c z f2 s)))) k"
      by (rule values_received_text) (simp_all add: fill_in_reads k')
    with True assms show ?thesis
      by (simp add: press_apply_filled(8))
  next
    case False
    then show ?thesis
      by (simp add: press_apply_other(4))
  qed
  have same: "search_file (?A f1) = search_file (?A f2)" "fs (?A f1) = fs (?A f2)"
    "text_watermarker (?A f1) = text_watermarker (?A f2)"
    "font_size (?A f1) = font_size (?A f2)" "text_color (?A f1) = text_color (?A f2)"
    "messages (?A f1) = messages (?A f2)" "printed (?A f1) = printed (?A f2)"
  proof -
    show "search_file (?A f1) = search_file (?A f2)"
      using assms by (cases "i < length (windows s) \<and> \<not> destroyed (windows s ! i) \<and> t \<noteq> [] \<and> c \<noteq> [] \<and> z \<noteq> []")
        (simp_all add: press_apply_filled(1) press_apply_other(1))
    show "fs (?A f1) = fs (?A f2)"
      using assms by (cases "i < length (windows s) \<and> \<not> destroyed (windows s ! i) \<and> t \<noteq> [] \<and> c \<noteq> [] \<and> z \<noteq> []")
        (simp_all add: press_apply_filled(2) press_apply_other(2))
    show "text_watermarker (?A f1) = text_watermarker (?A f2)"
      using assms by (cases "i < length (windows s) \<and> \<not> destroyed (windows s ! i) \<and> t \<noteq> [] \<and> c \<noteq> [] \<and> z \<noteq> []")
        (simp_all add: press_apply_filled(3) press_apply_other(3))
    show "font_size (?A f1) = font_size (?A f2)"
      using assms by (cases "i < length (windows s) \<and> \<not> destroyed (windows s ! i) \<and> t \<noteq> [] \<and> c \<noteq> [] \<and> z \<noteq> []")
        (simp_all add: press_apply_filled(4) press_apply_other(5))
    show "text_color (?A f1) = text_color (?A f2)"
      using assms by (cases "i < length (windows s) \<and> \<not> destroyed (windows s ! i) \<and> t \<noteq> [] \<and> c \<noteq> [] \<and> z \<noteq> []")
        (simp_all add: press_apply_filled(5) press_apply_other(6))
    show "messages (?A f1) = messages (?A f2)"
      using assms by (cases "i < length (windows s) \<and> \<not> destroyed (windows s ! i) \<and> t \<noteq> [] \<and> c \<noteq> [] \<and> z \<noteq> []")
        (simp_all add: press_apply_filled(6) press_apply_other(7))
    show "printed (?A f1) = printed (?A f2)"
      using assms by (cases "i < length (windows s) \<and> \<not> destroyed (windows s ! i) \<and> t \<noteq> [] \<and> c \<noteq> [] \<and> z \<noteq> []")
        (simp_all add: press_apply_filled(7) press_apply_other(8))
  qed
  from save_image_reads [OF same(1,2,3) overlay same(4,5,6,7), of e chosen]
    save_image_font_value [where e = e and chosen = chosen and s = s and v = v]
  show ?thesis by simp
qed

theorem save_ignores_font_family_witness:
  "fs (fst (save_image no_font (Some ''out.png'') (marked ''40'' ''Arial''))) =
   fs (fst (save_image no_font (Some ''out.png'') (marked ''40'' ''Impact''))) \<and>
   snd (save_image no_font (Some ''out.png'') (marked ''40'' ''Arial'')) =
   snd (save_image no_font (Some ''out.png'') (marked ''40'' ''Impact'')) \<and>
   font_value (marked ''40'' ''Arial'') = Some ''Arial'' \<and>
   font_value (marked ''40'' ''Impact'') = Some ''Impact''"
proof -
  have a: "''Arial'' \<noteq> []" and b: "''Impact'' \<noteq> []"
    by simp_all
  have "font_value (marked ''40'' ''Arial'') = Some ''Arial''"
    and "font_value (marked ''40'' ''Impact'') = Some ''Impact''"
    by code_simp+
  with save_ignores_font_family [OF a b, where e = no_font and chosen = "Some ''out.png''"
      and i = 0 and t = "''hello''" and c = "''Red''" and z = "''40''" and s = "open_text_settings editing"]
  show ?thesis
    by (simp add: marked_def)
qed

section \<open>Returning to the landing screen\<close>

lemma menu_start_fields:
  "in_principal (menu_start s) = in_principal s"
  "canvas (menu_start s) = canvas (menu_start s0)"
  "app_title (menu_start s) = app_title (menu_start s0)"
  "app_image (menu_start s) = app_image (menu_start s0)"
  "logo (menu_start s) = logo (menu_start s0)"
  "select_file_button (menu_start s)"
  "credit_label (menu_start s)"
  "search_file (menu_start s) = search_file s"
  "new_image (menu_start s) = new_image s"
  "insert_text_button (menu_start s) = insert_text_button s"
  "save_button (menu_start s) = save_button s"
  "return_button (menu_start s) = return_button s"
  "watermark_text (menu_start s) = watermark_text s"
  "text_color (menu_start s) = text_color s"
  "font_size (menu_start s) = font_size s"
  "font_value (menu_start s) = font_value s"
  by (simp_all add: menu_start_def Let_def split: prod.splits)

lemma change_menu_fields:
  assumes "in_principal s" and "picked \<noteq> []"
  shows "insert_text_button (fst (change_menu e picked s)) = Some True"
    and "save_button (fst (change_menu e picked s)) = Some True"
    and "return_button (fst (change_menu e picked s)) = Some True"
    and "search_file (fst (change_menu e picked s)) = Some picked"
    and "watermark_text (fst (change_menu e picked s)) = watermark_text s"
    and "text_color (fst (change_menu e picked s)) = text_color s"
    and "font_size (fst (change_menu e picked s)) = font_size s"
    and "font_value (fst (change_menu e picked s)) = font_value s"
    and "\<not> in_principal (fst (change_menu e picked s))"
    and "\<not> select_file_button (fst (change_menu e picked s))"
    and "\<not> credit_label (fst (change_menu e picked s))"
  using assms
  by (simp_all add: change_menu_def add_image_def setting_buttons_def Let_def
        split: prod.splits option.splits sum.splits)

lemma return_to_principal_shown:
  assumes "insert_text_button s = Some a" and "return_button s = Some b" and "save_button s = Some c"
  shows "return_to_principal s =
           (menu_start (s\<lparr>in_principal := True, insert_text_button := Some False,
                          return_button := Some False, save_button := Some False\<rparr>), None)"
  using assms by (simp add: return_to_principal_def Let_def)

lemma change_menu_from_launch:
  assumes "picked \<noteq> []" and "Image_open e f picked = Inr opened"
  shows "snd (change_menu e picked (init f)) = None"
  using assms
  by (simp add: change_menu_def add_image_def setting_buttons_def init_def menu_start_def
        create_def Canvas_def delete_def itemconfig_image_def Let_def)

text \<open>
  C5, as the code has it. From a landing state, after a file was selected and the user
  returned, \<open>in_principal\<close>, the canvas with its title and icon, the \<open>Select File\<close>
  button and the credits label are as they are at launch, and the three editing buttons
  are off the grid; this holds whether or not the selected file could be loaded.
  Returning raises nothing. Selecting, from launch, raises nothing when the selected file
  opens as an image (a file that does not open raises, after the editing buttons have been
  put up). The stored path stays the selected one, the preview image stays what
  \<open>add_image\<close> left, and the watermark parameters keep their values:
  \<open>return_to_principal\<close> resets the graphical elements only.
\<close>

theorem return_restores_landing_screen:
  assumes "in_principal s" and "picked \<noteq> []"
  shows "snd (return_to_principal (fst (change_menu e picked s))) = None \<and>
         (Image_open e f picked = Inr opened \<longrightarrow> snd (change_menu e picked (init f)) = None) \<and>
         in_principal (fst (return_to_principal (fst (change_menu e picked s)))) = in_principal (init f) \<and>
         canvas (fst (return_to_principal (fst (change_menu e picked s)))) = canvas (init f) \<and>
         app_title (fst (return_to_principal (fst (change_menu e picked s)))) = app_title (init f) \<and>
         app_image (fst (return_to_principal (fst (change_menu e picked s)))) = app_image (init f) \<and>
         logo (fst (return_to_principal (fst (change_menu e picked s)))) = logo (init f) \<and>
         select_file_button (fst (return_to_principal (fst (change_menu e picked s)))) = select_file_button (init f) \<and>
         credit_label (fst (return_to_principal (fst (change_menu e picked s)))) = credit_label (init f) \<and>
         insert_text_button (fst (return_to_principal (fst (change_menu e picked s)))) = Some False \<and>
         save_button (fst (return_to_principal (fst (change_menu e picked s)))) = Some False \<and>
         return_button (fst (return_to_principal (fst (change_menu e picked s)))) = Some False \<and>
         search_file (fst (return_to_principal (fst (change_menu e picked s)))) = Some picked \<and>
         new_image (fst (return_to_principal (fst (change_menu e picked s)))) = new_image (fst (change_menu e picked s)) \<and>
         watermark_text (fst (return_to_principal (fst (change_menu e picked s)))) = watermark_text s \<and>
         text_color (fst (return_to_principal (fst (change_menu e picked s)))) = text_color s \<and>
         font_size (fst (return_to_principal (fst (change_menu e picked s)))) = font_size s \<and>
         font_value (fst (return_to_principal (fst (change_menu e picked s)))) = font_value s"
proof -
  let ?e = "fst (change_menu e picked s)"
  note cm = change_menu_fields [OF assms, of e]
  have r: "return_to_principal ?e =
      (menu_start (?e\<lparr>in_principal := True, insert_text_button := Some False,
                      return_button := Some False, save_button := Some False\<rparr>), None)"
    by (rule return_to_principal_shown [OF cm(1) cm(3) cm(2)])
  have i: "in_principal (init f)" "select_file_button (init f)" "credit_label (init f)"
    by (simp_all add: init_def menu_start_fields)
  have l: "Image_open e f picked = Inr opened \<longrightarrow> snd (change_menu e picked (init f)) = None"
    using change_menu_from_launch [OF assms(2)] by blast
  have "snd (return_to_principal ?e) = None \<and>
         in_principal (fst (return_to_principal ?e)) = in_principal (init f) \<and>
         canvas (fst (return_to_principal ?e)) = canvas (init f) \<and>
         app_title (fst (return_to_principal ?e)) = app_title (init f) \<and>
         app_image (fst (return_to_principal ?e)) = app_image (init f) \<and>
         logo (fst (return_to_principal ?e)) = logo (init f) \<and>
         select_file_button (fst (return_to_principal ?e)) = select_file_button (init f) \<and>
         credit_label (fst (return_to_principal ?e)) = credit_label (init f) \<and>
         insert_text_button (fst (return_to_principal ?e)) = Some False \<and>
         save_button (fst (return_to_principal ?e)) = Some False \<and>
         return_button (fst (return_to_principal ?e)) = Some False \<and>
         search_file (fst (return_to_principal ?e)) = Some picked \<and>
         new_image (fst (return_to_principal ?e)) = new_image ?e \<and>
         watermark_text (fst (return_to_principal ?e)) = watermark_text s \<and>
         text_color (fst (return_to_principal ?e)) = text_color s \<and>
         font_size (fst (return_to_principal ?e)) = font_size s \<and>
         font_value (fst (return_to_principal ?e)) = font_value s"
    unfolding r fst_conv snd_conv init_def
    using i cm by (simp add: menu_start_fields init_def)
  with l show ?thesis
    by blast
qed

theorem return_restores_landing_screen_witness:
  "canvas (fst (return_to_principal (fst (change_menu no_font ''/home/user/photo.png'' (init disk))))) =
     canvas (init disk) \<and>
   in_principal (fst (return_to_principal (fst (change_menu no_font ''/home/user/photo.png'' (init disk))))) \<and>
   search_file (fst (return_to_principal (fst (change_menu no_font ''/home/user/photo.png'' (init disk))))) =
     Some ''/home/user/photo.png'' \<and>
   snd (change_menu no_font ''/home/user/photo.png'' (init disk)) = None \<and>
   snd (return_to_principal (fst (change_menu no_font ''/home/user/photo.png'' (init disk)))) = None"
proof -
  have a: "in_principal (init disk)"
    by code_simp
  have b: "''/home/user/photo.png'' \<noteq> []"
    by simp
  have c: "Image_open no_font disk ''/home/user/photo.png'' = Inr (Pixels 0)"
    by (simp add: Image_open_def no_font_def disk_def)
  from return_restores_landing_screen [OF a b, where e = no_font and f = disk and opened = "Pixels 0"] a c
  show ?thesis
    by simp
qed

text \<open>
  The claim C5 as stated fails on the stored path and the preview image: at launch both
  are unset, after selecting a file and returning both are set.
\<close>

theorem return_keeps_selected_path:
  "search_file (init disk) = None \<and>
   search_file (fst (return_to_principal (fst (change_menu no_font ''/home/user/photo.png'' (init disk))))) =
     Some ''/home/user/photo.png'' \<and>
   new_image (init disk) = None \<and>
   new_image (fst (return_to_principal (fst (change_menu no_font ''/home/user/photo.png'' (init disk))))) =
     Some (PhotoOf (Resize (Pixels 0) (600, 600))) \<and>
   fst (return_to_principal (fst (change_menu no_font ''/home/user/photo.png'' (init disk)))) \<noteq> init disk"
proof -
  let ?s = "fst (return_to_principal (fst (change_menu no_font ''/home/user/photo.png'' (init disk))))"
  have a: "search_file (init disk) = None"
    and b: "search_file ?s = Some ''/home/user/photo.png''"
    and c: "new_image (init disk) = None"
    and d: "new_image ?s = Some (PhotoOf (Resize (Pixels 0) (600, 600)))"
    by code_simp+
  have "?s \<noteq> init disk"
  proof
    assume "?s = init disk"
    then have "search_file ?s = search_file (init disk)" by simp
    with a b show False by simp
  qed
  with a b c d show ?thesis by simp
qed

section \<open>Cancelled pickers\<close>

text \<open>
  C7, as the code has it. A cancelled open picker leaves the empty string in
  \<open>search_file\<close> and changes nothing else; a cancelled save picker changes nothing at
  all. Neither shows a message, writes a file or raises.
\<close>

theorem cancelled_pickers:
  "change_menu e [] s = (s\<lparr>search_file := Some []\<rparr>, None) \<and>
   save_image e None s = (s, None)"
  by (simp add: change_menu_def save_image_def)

text \<open>
  The claim C7 as stated fails on the stored path: cancelling the open picker at launch
  turns it from unset into the empty string, and cancelling it after a file was selected
  and the user returned replaces the selected path by the empty string.
\<close>

theorem cancelled_open_overwrites_path:
  "search_file (init disk) = None \<and>
   search_file (fst (change_menu no_font [] (init disk))) = Some [] \<and>
   fst (change_menu no_font [] (init disk)) \<noteq> init disk \<and>
   search_file (fst (return_to_principal (fst (change_menu no_font ''/home/user/photo.png'' (init disk))))) =
     Some ''/home/user/photo.png'' \<and>
   search_file (fst (change_menu no_font []
     (fst (return_to_principal (fst (change_menu no_font ''/home/user/photo.png'' (init disk))))))) = Some []"
proof -
  have a: "search_file (init disk) = None"
    and b: "search_file (fst (change_menu no_font [] (init disk))) = Some []"
    and c: "search_file (fst (return_to_principal (fst (change_menu no_font ''/home/user/photo.png'' (init disk))))) =
      Some ''/home/user/photo.png''"
    and d: "search_file (fst (change_menu no_font []
      (fst (return_to_principal (fst (change_menu no_font ''/home/user/photo.png'' (init disk))))))) = Some []"
    by code_simp+
  have "fst (change_menu no_font [] (init disk)) \<noteq> init disk"
  proof
    assume "fst (change_menu no_font [] (init disk)) = init disk"
    then have "search_file (fst (change_menu no_font [] (init disk))) = search_file (init disk)" by simp
    with a b show False by simp
  qed
  with a b c d show ?thesis by simp
qed

end
